theory Spec2Isabelle
  imports Main
begin

section \<open>The ElastiCache replication group construct\<close>

text \<open>
  A shallow embedding of \<^verbatim>\<open>ReplicationGroup\<close> (the constructor, its private
  \<^verbatim>\<open>validateNodeCount\<close> and the static \<^verbatim>\<open>fromReplicationGroupAttributes\<close>).
  An optional property (\<^verbatim>\<open>name?: T\<close>) is a \<open>T option\<close>, \<open>None\<close> standing for
  \<^verbatim>\<open>undefined\<close>. A \<^verbatim>\<open>throw new Error(...)\<close> is the left summand of the result.
  The constructs created below the replication group (\<^verbatim>\<open>new X(this, id, props)\<close>)
  are recorded, in the order of their creation, in the list of children of the new
  construct; that list is returned next to the result, so that what has been created
  when an error is thrown stays visible.
  Counts are TypeScript numbers; they are modelled as integers (no NaN, no fractions).
\<close>

subsection \<open>Values of the collaborating libraries\<close>

text \<open>A string of the CDK is a literal or a token that is resolved at deployment.\<close>

datatype str_value = Str string | Ref string | GetAtt string string

datatype num_value = Num int | NumToken str_value

datatype RemovalPolicy = DESTROY | RETAIN | SNAPSHOT

datatype EngineVersion = REDIS_5_0_5 | REDIS_5_0_6 | REDIS_6_X

datatype SubnetType = ISOLATED | PRIVATE | PUBLIC

record SubnetSelection =
  subnetType :: "SubnetType option"

datatype IVpc = Vpc string

record ISecurityGroup =
  securityGroupId :: str_value
  allowAllOutbound :: bool

record IKey =
  keyArn :: str_value

record IParameterGroup =
  parameterGroupName :: str_value

datatype InstanceType = InstanceType string

fun toString :: "InstanceType \<Rightarrow> string" where
  "toString (InstanceType s) = s"

datatype Port = Tcp num_value

text \<open>
  The connections object is represented by the properties it is built from.
\<close>

record Connections =
  conn_securityGroups :: "ISecurityGroup list option"
  defaultPort :: "Port option"

text \<open>
  Modelled from the spec: the \<^verbatim>\<open>Endpoint\<close> value object of \<^verbatim>\<open>./endpoint\<close>, which is
  not among the sources: an address and port pair, built from its two arguments.
\<close>

datatype Endpoint = Endpoint (endpoint_address: str_value) (endpoint_port: num_value)

text \<open>
  Modelled from the spec: the subnet group handle of \<^verbatim>\<open>./subnet-group\<close>, which is not
  among the sources: it exposes a stable name.
\<close>

record ISubnetGroup =
  subnetGroupName :: str_value

subsection \<open>Properties\<close>

record ReplicationGroupAttributes =
  attr_securityGroups :: "ISecurityGroup list option"
  attr_replicationGroupId :: string
  primaryEndpointAddress :: string
  primaryEndpointPort :: int
  readerEndpointAddress :: string
  readerEndpointPort :: int

record ReplicationGroupProps =
  replicationGroupName :: "string option"
  description :: "string option"
  engineVersion :: "EngineVersion option"
  parameterGroup :: "IParameterGroup option"
  numberOfNodeGroups :: "int option"
  numberOfCacheClusters :: "int option"
  replicasPerNodeGroup :: "int option"
  multiAzEnabled :: "bool option"
  automaticFailoverEnabled :: "bool option"
  clusterModeEnabled :: "bool option"
  nodeType :: "InstanceType option"
  port :: "int option"
  atRestEncrypted :: "bool option"
  encryptionKey :: "IKey option"
  preferredMaintenanceWindow :: "string option"
  snapshotWindow :: "string option"
  snapshotRetentionLimit :: "int option"
  vpc :: IVpc
  vpcSubnets :: "SubnetSelection option"
  securityGroups :: "ISecurityGroup list option"
  subnetGroup :: "ISubnetGroup option"
  removalPolicy :: "RemovalPolicy option"
  publiclyAccessible :: "bool option"

text \<open>
  The properties handed to \<^verbatim>\<open>CfnReplicationGroup\<close>. A field whose name is also a
  field of \<open>ReplicationGroupProps\<close> carries the prefix \<open>cfn_\<close>.
\<close>

record CfnReplicationGroupProps =
  autoMinorVersionUpgrade :: "bool option"
  replicationGroupDescription :: string
  cfn_replicationGroupId :: "string option"
  securityGroupIds :: "str_value list"
  cacheSubnetGroupName :: str_value
  cfn_port :: "int option"
  cacheParameterGroupName :: "str_value option"
  cfn_preferredMaintenanceWindow :: "string option"
  cacheNodeType :: string
  engine :: string
  cfn_engineVersion :: "EngineVersion option"
  cfn_snapshotWindow :: "string option"
  cfn_snapshotRetentionLimit :: "int option"
  cfn_automaticFailoverEnabled :: bool
  numCacheClusters :: "int option"
  numNodeGroups :: int
  cfn_replicasPerNodeGroup :: int
  cfn_multiAzEnabled :: "bool option"
  kmsKeyId :: "str_value option"
  atRestEncryptionEnabled :: bool

text \<open>The read contract of \<^verbatim>\<open>IReplicationGroup\<close>.\<close>

record IReplicationGroup =
  replicationGroupId :: str_value
  primaryEndpoint :: Endpoint
  readerEndpoint :: Endpoint
  connections :: Connections

subsection \<open>Child constructs\<close>

text \<open>
  A child is the construct's local id with the properties it was created from:
  \<^item> \<open>SubnetGroup id description vpc vpcSubnets removalPolicy\<close>;
  \<^item> \<open>SecurityGroup id description vpc\<close> (no other property is passed);
  \<^item> \<open>CfnReplicationGroup id props deletionPolicy updateReplacePolicy\<close>, the two
    policies being unset until \<^verbatim>\<open>applyRemovalPolicy\<close> is called.
\<close>

datatype child =
  SubnetGroup string string IVpc SubnetSelection RemovalPolicy
| SecurityGroup string string IVpc
| CfnReplicationGroup string CfnReplicationGroupProps "RemovalPolicy option" "RemovalPolicy option"

type_synonym construct = "child list"

text \<open>The removal policy a child was created with or was given afterwards.\<close>

fun child_removalPolicy :: "child \<Rightarrow> RemovalPolicy option" where
  "child_removalPolicy (SubnetGroup i d v s p) = Some p"
| "child_removalPolicy (SecurityGroup i d v) = None"
| "child_removalPolicy (CfnReplicationGroup i ps dp up) = dp"

fun is_SubnetGroup :: "child \<Rightarrow> bool" where
  "is_SubnetGroup (SubnetGroup i d v s p) = True"
| "is_SubnetGroup c = False"

fun is_SecurityGroup :: "child \<Rightarrow> bool" where
  "is_SecurityGroup (SecurityGroup i d v) = True"
| "is_SecurityGroup c = False"

fun is_CfnReplicationGroup :: "child \<Rightarrow> bool" where
  "is_CfnReplicationGroup (CfnReplicationGroup i ps dp up) = True"
| "is_CfnReplicationGroup c = False"

text \<open>
  Modelled from the spec: \<^verbatim>\<open>new SubnetGroup(this, id, {description, vpc, vpcSubnets,
  removalPolicy})\<close> of \<^verbatim>\<open>./subnet-group\<close>, not among the sources: a subnet group
  constructed fresh registers one child and is named by a reference to it.
\<close>

definition new_SubnetGroup ::
  "construct \<Rightarrow> string \<Rightarrow> string \<Rightarrow> IVpc \<Rightarrow> SubnetSelection \<Rightarrow> RemovalPolicy
    \<Rightarrow> ISubnetGroup \<times> construct" where
  "new_SubnetGroup this i d v s p =
     (\<lparr>subnetGroupName = Ref i\<rparr>, this @ [SubnetGroup i d v s p])"

text \<open>
  \<^verbatim>\<open>new ec2.SecurityGroup(this, id, {description, vpc})\<close>: one child, identified by
  its \<^verbatim>\<open>GroupId\<close> attribute; outbound traffic is allowed by default.
\<close>

definition new_SecurityGroup ::
  "construct \<Rightarrow> string \<Rightarrow> string \<Rightarrow> IVpc \<Rightarrow> ISecurityGroup \<times> construct" where
  "new_SecurityGroup this i d v =
     (\<lparr>securityGroupId = GetAtt i ''GroupId'', allowAllOutbound = True\<rparr>,
      this @ [SecurityGroup i d v])"

definition new_CfnReplicationGroup ::
  "construct \<Rightarrow> string \<Rightarrow> CfnReplicationGroupProps \<Rightarrow> child \<times> construct" where
  "new_CfnReplicationGroup this i ps =
     (CfnReplicationGroup i ps None None, this @ [CfnReplicationGroup i ps None None])"

text \<open>
  \<^verbatim>\<open>resource.applyRemovalPolicy(policy, {applyToUpdateReplacePolicy})\<close>.
\<close>

fun applyRemovalPolicy :: "RemovalPolicy \<Rightarrow> bool \<Rightarrow> child \<Rightarrow> child" where
  "applyRemovalPolicy p u (CfnReplicationGroup i ps dp up) =
     CfnReplicationGroup i ps (Some p) (if u then Some p else up)"
| "applyRemovalPolicy p u c = c"

subsection \<open>Truthiness\<close>

text \<open>
  In a condition and under \<^verbatim>\<open>||\<close> and \<^verbatim>\<open>&&\<close>, \<^verbatim>\<open>undefined\<close>, \<^verbatim>\<open>false\<close>, \<^verbatim>\<open>0\<close>
  and the empty string count as false, every other value as true.
\<close>

fun truthy_num :: "int option \<Rightarrow> bool" where
  "truthy_num None = False"
| "truthy_num (Some n) = (n \<noteq> 0)"

fun truthy_bool :: "bool option \<Rightarrow> bool" where
  "truthy_bool None = False"
| "truthy_bool (Some b) = b"

subsection \<open>Validation\<close>

datatype error =
  NumCacheClusterWithNodeGroups
| MultiAZMustBeTrue
| NodeGroupsMustExceedOne
| AutomaticFailoverMustBeTrue
| AutomaticFailoverMultiAZ
| AtLeastOneReplica
| EncryptionKeyWithoutEncryption

fun message :: "error \<Rightarrow> string" where
  "message NumCacheClusterWithNodeGroups =
     ''Property NumCacheCluster cannot be defined along with Properties NumNodeGroups, ReplicasPerNodeGroup or NodeGroupConfiguration''"
| "message MultiAZMustBeTrue = ''multiAZEnabled must be true, if clusterModeEnabled.''"
| "message NodeGroupsMustExceedOne =
     ''Number of node groups must be >2 when cluster mode is enabled''"
| "message AutomaticFailoverMustBeTrue =
     ''automaticFailoverEnabled must be true when clusterModeEnabled is true.''"
| "message AutomaticFailoverMultiAZ =
     ''Automatic Failover cannot be disabled for Multi-AZ enabled Replication Group''"
| "message AtLeastOneReplica = ''Must have at least one replica, if multiAZEnaled is true''"
| "message EncryptionKeyWithoutEncryption =
     ''Cannot set property encryptionKey without enabling encryption!''"

definition validateNodeCount :: "ReplicationGroupProps \<Rightarrow> error + unit" where
  "validateNodeCount props =
     (if truthy_num (numberOfCacheClusters props) \<and>
         (truthy_num (numberOfNodeGroups props) \<or> truthy_num (replicasPerNodeGroup props))
      then Inl NumCacheClusterWithNodeGroups
      else if truthy_bool (clusterModeEnabled props) \<and> multiAzEnabled props = Some False
      then Inl MultiAZMustBeTrue
      else if truthy_bool (clusterModeEnabled props) \<and>
         numberOfNodeGroups props \<noteq> None \<and> numberOfNodeGroups props = Some 1
      then Inl NodeGroupsMustExceedOne
      else if truthy_bool (clusterModeEnabled props) \<and>
         automaticFailoverEnabled props = Some False
      then Inl AutomaticFailoverMustBeTrue
      else if truthy_bool (multiAzEnabled props) \<and>
         automaticFailoverEnabled props = Some False
      then Inl AutomaticFailoverMultiAZ
      else if truthy_bool (multiAzEnabled props) \<and>
         (case replicasPerNodeGroup props of None \<Rightarrow> False | Some r \<Rightarrow> r < 1)
      then Inl AtLeastOneReplica
      else Inr ())"

subsection \<open>The constructor\<close>

definition cacheNodeInstanceType :: "InstanceType \<Rightarrow> string" where
  "cacheNodeInstanceType instanceType = ''cache.'' @ toString instanceType"

text \<open>
  The properties of the \<^verbatim>\<open>CfnReplicationGroup\<close>, from the construct's properties, the
  subnet group and the security groups in use. \<^verbatim>\<open>a || b ? x : y\<close> is
  \<^verbatim>\<open>(a || b) ? x : y\<close>.
\<close>

definition cfnProps ::
  "ReplicationGroupProps \<Rightarrow> ISubnetGroup \<Rightarrow> ISecurityGroup list \<Rightarrow> CfnReplicationGroupProps"
  where
  "cfnProps props sng sgs =
     \<lparr>autoMinorVersionUpgrade = None,
      replicationGroupDescription =
        (case description props of
           Some d \<Rightarrow> if d \<noteq> [] then d else ''CDK generated replication group''
         | None \<Rightarrow> ''CDK generated replication group''),
      cfn_replicationGroupId = replicationGroupName props,
      securityGroupIds = map securityGroupId sgs,
      cacheSubnetGroupName = subnetGroupName sng,
      cfn_port = port props,
      cacheParameterGroupName = map_option parameterGroupName (parameterGroup props),
      cfn_preferredMaintenanceWindow = preferredMaintenanceWindow props,
      cacheNodeType =
        cacheNodeInstanceType
          (case nodeType props of Some t \<Rightarrow> t | None \<Rightarrow> InstanceType ''t3.micro''),
      engine = ''redis'',
      cfn_engineVersion = engineVersion props,
      cfn_snapshotWindow = snapshotWindow props,
      cfn_snapshotRetentionLimit = snapshotRetentionLimit props,
      cfn_automaticFailoverEnabled =
        (if truthy_bool (clusterModeEnabled props) then True
         else if truthy_bool (automaticFailoverEnabled props) then True
         else if truthy_bool (multiAzEnabled props) then True
         else False),
      numCacheClusters = numberOfCacheClusters props,
      numNodeGroups =
        (if truthy_num (numberOfNodeGroups props) \<or> truthy_bool (clusterModeEnabled props)
         then 2 else 1),
      cfn_replicasPerNodeGroup =
        (if truthy_num (replicasPerNodeGroup props) \<or> truthy_bool (multiAzEnabled props)
         then 1 else 0),
      cfn_multiAzEnabled = multiAzEnabled props,
      kmsKeyId = map_option keyArn (encryptionKey props),
      atRestEncryptionEnabled = (case atRestEncrypted props of Some b \<Rightarrow> b | None \<Rightarrow> True)\<rparr>"

text \<open>
  \<^verbatim>\<open>new ReplicationGroup(scope, id, props)\<close>: the result, and the children of the new
  construct after the call.
\<close>

definition ReplicationGroup_constructor ::
  "string \<Rightarrow> ReplicationGroupProps \<Rightarrow> (error + IReplicationGroup) \<times> construct" where
  "ReplicationGroup_constructor id' props =
     (let policy = (case removalPolicy props of Some p \<Rightarrow> p | None \<Rightarrow> DESTROY);
          this_vpc = vpc props;
          this_vpcSubnets =
            (case vpcSubnets props of Some s \<Rightarrow> s | None \<Rightarrow> \<lparr>subnetType = Some PRIVATE\<rparr>);
          (sng, this1) =
            (case subnetGroup props of
               Some g \<Rightarrow> (g, [])
             | None \<Rightarrow>
                 new_SubnetGroup [] ''Subnets''
                   (''Subnets for '' @ id' @ '' ElastiCache Replication Group'')
                   this_vpc this_vpcSubnets policy);
          (sgs, this2) =
            (case securityGroups props of
               Some gs \<Rightarrow> (gs, this1)
             | None \<Rightarrow>
                 (let (sg, t) = new_SecurityGroup this1 ''SecurityGroup'' ''ElastiCache SG'' this_vpc
                  in ([sg], t)))
      in case validateNodeCount props of
           Inl e \<Rightarrow> (Inl e, this2)
         | Inr u \<Rightarrow>
             if atRestEncrypted props = Some False \<and> encryptionKey props \<noteq> None
             then (Inl EncryptionKeyWithoutEncryption, this2)
             else
               (let (replicationGroup, this3) =
                      new_CfnReplicationGroup this2 ''Resource'' (cfnProps props sng sgs);
                    this4 = this3[length this2 := applyRemovalPolicy policy True replicationGroup];
                    primary =
                      Endpoint (GetAtt ''Resource'' ''PrimaryEndPoint.Address'')
                        (NumToken (GetAtt ''Resource'' ''PrimaryEndPoint.Port''));
                    reader =
                      Endpoint (GetAtt ''Resource'' ''ReaderEndPoint.Address'')
                        (NumToken (GetAtt ''Resource'' ''ReaderEndPoint.Port''))
                in (Inr \<lparr>replicationGroupId = Ref ''Resource'',
                          primaryEndpoint = primary,
                          readerEndpoint = reader,
                          connections =
                            \<lparr>conn_securityGroups = Some sgs,
                             defaultPort = Some (Tcp (endpoint_port primary))\<rparr>\<rparr>,
                    this4)))"

text \<open>
  \<^verbatim>\<open>ReplicationGroup.fromReplicationGroupAttributes(scope, id, attrs)\<close>: the local
  class \<^verbatim>\<open>Import\<close> has field initialisers only, and creates no child.
\<close>

definition fromReplicationGroupAttributes ::
  "string \<Rightarrow> ReplicationGroupAttributes \<Rightarrow> (error + IReplicationGroup) \<times> construct" where
  "fromReplicationGroupAttributes id' attrs =
     (Inr \<lparr>replicationGroupId = Str (attr_replicationGroupId attrs),
           primaryEndpoint =
             Endpoint (Str (primaryEndpointAddress attrs)) (Num (primaryEndpointPort attrs)),
           readerEndpoint =
             Endpoint (Str (readerEndpointAddress attrs)) (Num (readerEndpointPort attrs)),
           connections =
             \<lparr>conn_securityGroups = attr_securityGroups attrs,
              defaultPort = Some (Tcp (Num (primaryEndpointPort attrs)))\<rparr>\<rparr>,
      [])"

text \<open>The child that carries the replication group resource, when there is one.\<close>

fun resourceProps :: "construct \<Rightarrow> CfnReplicationGroupProps option" where
  "resourceProps [] = None"
| "resourceProps (CfnReplicationGroup i ps dp up # cs) = Some ps"
| "resourceProps (c # cs) = resourceProps cs"

text \<open>The properties of the test suite's \<^verbatim>\<open>{ vpc }\<close>: every optional property absent.\<close>

definition onlyVpc :: "IVpc \<Rightarrow> ReplicationGroupProps" where
  "onlyVpc v =
     \<lparr>replicationGroupName = None, description = None, engineVersion = None,
      parameterGroup = None, numberOfNodeGroups = None, numberOfCacheClusters = None,
      replicasPerNodeGroup = None, multiAzEnabled = None, automaticFailoverEnabled = None,
      clusterModeEnabled = None, nodeType = None, port = None, atRestEncrypted = None,
      encryptionKey = None, preferredMaintenanceWindow = None, snapshotWindow = None,
      snapshotRetentionLimit = None, vpc = v, vpcSubnets = None, securityGroups = None,
      subnetGroup = None, removalPolicy = None, publiclyAccessible = None\<rparr>"


section \<open>Facts about the constructor\<close>

lemmas ctor_defs =
  ReplicationGroup_constructor_def Let_def new_SubnetGroup_def new_SecurityGroup_def
  new_CfnReplicationGroup_def

lemma constructor_children_on_error:
  "fst (ReplicationGroup_constructor i ps) = Inl e \<Longrightarrow>
   snd (ReplicationGroup_constructor i ps) =
     (case subnetGroup ps of
        None \<Rightarrow> [SubnetGroup ''Subnets'' (''Subnets for '' @ i @ '' ElastiCache Replication Group'')
                  (vpc ps) (case vpcSubnets ps of Some s \<Rightarrow> s | None \<Rightarrow> \<lparr>subnetType = Some PRIVATE\<rparr>)
                  (case removalPolicy ps of Some p \<Rightarrow> p | None \<Rightarrow> DESTROY)]
      | Some g \<Rightarrow> []) @
     (case securityGroups ps of
        None \<Rightarrow> [SecurityGroup ''SecurityGroup'' ''ElastiCache SG'' (vpc ps)]
      | Some gs \<Rightarrow> [])"
  by (auto simp: ctor_defs split: option.splits sum.splits if_splits)

lemma constructor_children_on_success:
  "fst (ReplicationGroup_constructor i ps) = Inr h \<Longrightarrow>
   snd (ReplicationGroup_constructor i ps) =
     (case subnetGroup ps of
        None \<Rightarrow> [SubnetGroup ''Subnets'' (''Subnets for '' @ i @ '' ElastiCache Replication Group'')
                  (vpc ps) (case vpcSubnets ps of Some s \<Rightarrow> s | None \<Rightarrow> \<lparr>subnetType = Some PRIVATE\<rparr>)
                  (case removalPolicy ps of Some p \<Rightarrow> p | None \<Rightarrow> DESTROY)]
      | Some g \<Rightarrow> []) @
     (case securityGroups ps of
        None \<Rightarrow> [SecurityGroup ''SecurityGroup'' ''ElastiCache SG'' (vpc ps)]
      | Some gs \<Rightarrow> []) @
     [CfnReplicationGroup ''Resource''
        (cfnProps ps
           (case subnetGroup ps of Some g \<Rightarrow> g | None \<Rightarrow> \<lparr>subnetGroupName = Ref ''Subnets''\<rparr>)
           (case securityGroups ps of
              Some gs \<Rightarrow> gs
            | None \<Rightarrow> [\<lparr>securityGroupId = GetAtt ''SecurityGroup'' ''GroupId'',
                        allowAllOutbound = True\<rparr>]))
        (Some (case removalPolicy ps of Some p \<Rightarrow> p | None \<Rightarrow> DESTROY))
        (Some (case removalPolicy ps of Some p \<Rightarrow> p | None \<Rightarrow> DESTROY))]"
  by (auto simp: ctor_defs list_update_append split: option.splits sum.splits if_splits)

lemma constructor_result:
  "fst (ReplicationGroup_constructor i ps) =
     (case validateNodeCount ps of
        Inl e \<Rightarrow> Inl e
      | Inr u \<Rightarrow>
          if atRestEncrypted ps = Some False \<and> encryptionKey ps \<noteq> None
          then Inl EncryptionKeyWithoutEncryption
          else Inr \<lparr>replicationGroupId = Ref ''Resource'',
                    primaryEndpoint = Endpoint (GetAtt ''Resource'' ''PrimaryEndPoint.Address'')
                        (NumToken (GetAtt ''Resource'' ''PrimaryEndPoint.Port'')),
                    readerEndpoint = Endpoint (GetAtt ''Resource'' ''ReaderEndPoint.Address'')
                        (NumToken (GetAtt ''Resource'' ''ReaderEndPoint.Port'')),
                    connections =
                      \<lparr>conn_securityGroups =
                         Some (case securityGroups ps of
                                 Some gs \<Rightarrow> gs
                               | None \<Rightarrow> [\<lparr>securityGroupId = GetAtt ''SecurityGroup'' ''GroupId'',
                                           allowAllOutbound = True\<rparr>]),
                       defaultPort =
                         Some (Tcp (NumToken (GetAtt ''Resource'' ''PrimaryEndPoint.Port'')))\<rparr>\<rparr>)"
  by (auto simp: ctor_defs split: option.splits sum.splits if_splits)

lemma constructor_resourceProps_on_success:
  "fst (ReplicationGroup_constructor i ps) = Inr h \<Longrightarrow>
   resourceProps (snd (ReplicationGroup_constructor i ps)) =
     Some (cfnProps ps
           (case subnetGroup ps of Some g \<Rightarrow> g | None \<Rightarrow> \<lparr>subnetGroupName = Ref ''Subnets''\<rparr>)
           (case securityGroups ps of
              Some gs \<Rightarrow> gs
            | None \<Rightarrow> [\<lparr>securityGroupId = GetAtt ''SecurityGroup'' ''GroupId'',
                        allowAllOutbound = True\<rparr>]))"
  by (simp add: constructor_children_on_success split: option.splits)

lemma validateNodeCount_ok_failover:
  "validateNodeCount ps = Inr u \<Longrightarrow> automaticFailoverEnabled ps = Some False \<Longrightarrow>
   \<not> truthy_bool (clusterModeEnabled ps) \<and> \<not> truthy_bool (multiAzEnabled ps)"
  by (auto simp: validateNodeCount_def split: if_splits)


lemma constructor_children_cases:
  "(\<exists>e. fst (ReplicationGroup_constructor i ps) = Inl e) \<or>
   (\<exists>h. fst (ReplicationGroup_constructor i ps) = Inr h)"
  by (cases "fst (ReplicationGroup_constructor i ps)") auto

section \<open>The claims\<close>

text \<open>
  C1. The claim: the node-group count of the resource is the supplied
  \<^verbatim>\<open>numberOfNodeGroups\<close> when there is one, and 2 under cluster mode, 1 otherwise, only
  when it is absent. The expression of the constructor is
  \<^verbatim>\<open>props.numberOfNodeGroups || props.clusterModeEnabled ? 2 : 1\<close>, the condition of
  which is the whole disjunction: with nothing but \<^verbatim>\<open>numberOfNodeGroups: 3\<close> supplied,
  construction succeeds and the resource has 2 node groups, not 3.
\<close>

theorem numNodeGroups_explicit_value_lost:
  "map_option numNodeGroups
     (resourceProps (snd (ReplicationGroup_constructor ''rg''
        ((onlyVpc (Vpc ''VPC''))\<lparr>numberOfNodeGroups := Some 3\<rparr>)))) = Some 2"
  by (simp add: ctor_defs onlyVpc_def validateNodeCount_def cfnProps_def)

text \<open>
  C2. The claim: the replicas per node group of the resource are the supplied
  \<^verbatim>\<open>replicasPerNodeGroup\<close> when there is one, and 1 under multi-AZ, 0 otherwise, only
  when it is absent. The expression of the constructor is
  \<^verbatim>\<open>props.replicasPerNodeGroup || props.multiAzEnabled ? 1 : 0\<close>: with nothing but
  \<^verbatim>\<open>replicasPerNodeGroup: 3\<close> supplied, construction succeeds and the resource has
  1 replica per node group, not 3.
\<close>

theorem replicasPerNodeGroup_explicit_value_lost:
  "map_option cfn_replicasPerNodeGroup
     (resourceProps (snd (ReplicationGroup_constructor ''rg''
        ((onlyVpc (Vpc ''VPC''))\<lparr>replicasPerNodeGroup := Some 3\<rparr>)))) = Some 1"
  by (simp add: ctor_defs onlyVpc_def validateNodeCount_def cfnProps_def)

text \<open>
  C3, as stated: a validation error is raised before any child (default subnet group,
  default security group) is registered. It fails: the two defaults are created before
  \<^verbatim>\<open>validateNodeCount\<close> is called. With cluster mode on and multi-AZ explicitly off,
  the error is raised and both children are there.
\<close>

theorem children_registered_before_validation_error:
  "fst (ReplicationGroup_constructor ''rg''
          ((onlyVpc (Vpc ''VPC''))\<lparr>clusterModeEnabled := Some True, multiAzEnabled := Some False\<rparr>))
     = Inl MultiAZMustBeTrue \<and>
   snd (ReplicationGroup_constructor ''rg''
          ((onlyVpc (Vpc ''VPC''))\<lparr>clusterModeEnabled := Some True, multiAzEnabled := Some False\<rparr>))
     = [SubnetGroup ''Subnets'' ''Subnets for rg ElastiCache Replication Group'' (Vpc ''VPC'')
          \<lparr>subnetType = Some PRIVATE\<rparr> DESTROY,
        SecurityGroup ''SecurityGroup'' ''ElastiCache SG'' (Vpc ''VPC'')]"
  by (simp add: ctor_defs onlyVpc_def validateNodeCount_def)

text \<open>
  C3, amended: when construction raises an error, the replication group resource has
  not been created; the children registered by then are the default subnet group and
  the default security group, each only if the properties supply none, and nothing else.
\<close>

theorem error_before_resource:
  assumes "fst (ReplicationGroup_constructor i ps) = Inl e"
  shows "snd (ReplicationGroup_constructor i ps) =
     (case subnetGroup ps of
        None \<Rightarrow> [SubnetGroup ''Subnets'' (''Subnets for '' @ i @ '' ElastiCache Replication Group'')
                  (vpc ps) (case vpcSubnets ps of Some s \<Rightarrow> s | None \<Rightarrow> \<lparr>subnetType = Some PRIVATE\<rparr>)
                  (case removalPolicy ps of Some p \<Rightarrow> p | None \<Rightarrow> DESTROY)]
      | Some g \<Rightarrow> []) @
     (case securityGroups ps of
        None \<Rightarrow> [SecurityGroup ''SecurityGroup'' ''ElastiCache SG'' (vpc ps)]
      | Some gs \<Rightarrow> [])
   \<and> filter is_CfnReplicationGroup (snd (ReplicationGroup_constructor i ps)) = []"
proof -
  have cs: "snd (ReplicationGroup_constructor i ps) =
     (case subnetGroup ps of
        None \<Rightarrow> [SubnetGroup ''Subnets'' (''Subnets for '' @ i @ '' ElastiCache Replication Group'')
                  (vpc ps) (case vpcSubnets ps of Some s \<Rightarrow> s | None \<Rightarrow> \<lparr>subnetType = Some PRIVATE\<rparr>)
                  (case removalPolicy ps of Some p \<Rightarrow> p | None \<Rightarrow> DESTROY)]
      | Some g \<Rightarrow> []) @
     (case securityGroups ps of
        None \<Rightarrow> [SecurityGroup ''SecurityGroup'' ''ElastiCache SG'' (vpc ps)]
      | Some gs \<Rightarrow> [])"
    using assms by (rule constructor_children_on_error)
  moreover have "filter is_CfnReplicationGroup (snd (ReplicationGroup_constructor i ps)) = []"
    unfolding cs by (simp split: option.splits)
  ultimately show ?thesis by simp
qed

theorem error_before_resource_witness:
  "fst (ReplicationGroup_constructor ''rg''
          ((onlyVpc (Vpc ''VPC''))\<lparr>clusterModeEnabled := Some True,
             automaticFailoverEnabled := Some False,
             securityGroups := Some [\<lparr>securityGroupId = Str ''sg-1'', allowAllOutbound = False\<rparr>],
             subnetGroup := Some \<lparr>subnetGroupName = Str ''my-group''\<rparr>\<rparr>))
     = Inl AutomaticFailoverMustBeTrue \<and>
   snd (ReplicationGroup_constructor ''rg''
          ((onlyVpc (Vpc ''VPC''))\<lparr>clusterModeEnabled := Some True,
             automaticFailoverEnabled := Some False,
             securityGroups := Some [\<lparr>securityGroupId = Str ''sg-1'', allowAllOutbound = False\<rparr>],
             subnetGroup := Some \<lparr>subnetGroupName = Str ''my-group''\<rparr>\<rparr>))
     = []"
proof -
  let ?ps = "(onlyVpc (Vpc ''VPC''))\<lparr>clusterModeEnabled := Some True,
             automaticFailoverEnabled := Some False,
             securityGroups := Some [\<lparr>securityGroupId = Str ''sg-1'', allowAllOutbound = False\<rparr>],
             subnetGroup := Some \<lparr>subnetGroupName = Str ''my-group''\<rparr>\<rparr>"
  have e: "fst (ReplicationGroup_constructor ''rg'' ?ps) = Inl AutomaticFailoverMustBeTrue"
    by (simp add: constructor_result validateNodeCount_def onlyVpc_def)
  from error_before_resource [OF e] show ?thesis
    using e by (simp add: onlyVpc_def)
qed

text \<open>
  C4, as stated: for every set of properties the automatic-failover flag is the
  supplied \<^verbatim>\<open>automaticFailoverEnabled\<close> when there is one. It fails: the expression
  of the constructor is
  \<^verbatim>\<open>clusterModeEnabled || automaticFailoverEnabled || multiAzEnabled || false\<close>, a plain
  disjunction. With cluster mode on and \<^verbatim>\<open>automaticFailoverEnabled: false\<close> the
  expression yields true, not the supplied false; and the constructor does not get
  that far: \<^verbatim>\<open>validateNodeCount\<close> throws, and no resource carries a flag.
\<close>

theorem explicit_false_under_cluster_mode:
  "automaticFailoverEnabled
     ((onlyVpc (Vpc ''VPC''))\<lparr>clusterModeEnabled := Some True,
        automaticFailoverEnabled := Some False\<rparr>) = Some False \<and>
   cfn_automaticFailoverEnabled
     (cfnProps
        ((onlyVpc (Vpc ''VPC''))\<lparr>clusterModeEnabled := Some True,
           automaticFailoverEnabled := Some False\<rparr>)
        \<lparr>subnetGroupName = Ref ''Subnets''\<rparr>
        [\<lparr>securityGroupId = GetAtt ''SecurityGroup'' ''GroupId'', allowAllOutbound = True\<rparr>])
     = True \<and>
   fst (ReplicationGroup_constructor ''rg''
          ((onlyVpc (Vpc ''VPC''))\<lparr>clusterModeEnabled := Some True,
             automaticFailoverEnabled := Some False\<rparr>))
     = Inl AutomaticFailoverMustBeTrue \<and>
   map_option cfn_automaticFailoverEnabled
     (resourceProps (snd (ReplicationGroup_constructor ''rg''
        ((onlyVpc (Vpc ''VPC''))\<lparr>clusterModeEnabled := Some True,
           automaticFailoverEnabled := Some False\<rparr>))))
     = None"
  by (simp add: ctor_defs onlyVpc_def validateNodeCount_def cfnProps_def)

text \<open>
  C4, amended: for every set of properties that construction accepts, the
  automatic-failover flag of the resource is the supplied
  \<^verbatim>\<open>automaticFailoverEnabled\<close> when there is one, and otherwise
  (\<^verbatim>\<open>clusterModeEnabled\<close> or \<^verbatim>\<open>multiAzEnabled\<close>), hence false when none of the three
  is supplied. An explicit \<^verbatim>\<open>false\<close> next to cluster mode or multi-AZ is rejected by
  \<^verbatim>\<open>validateNodeCount\<close>, and no flag is resolved for it.
\<close>

theorem automaticFailoverEnabled_resolved:
  assumes "fst (ReplicationGroup_constructor i ps) = Inr h"
  shows "map_option cfn_automaticFailoverEnabled
           (resourceProps (snd (ReplicationGroup_constructor i ps))) =
         Some (case automaticFailoverEnabled ps of
                 Some b \<Rightarrow> b
               | None \<Rightarrow> clusterModeEnabled ps = Some True \<or> multiAzEnabled ps = Some True)"
proof -
  from assms obtain u where v: "validateNodeCount ps = Inr u"
    by (auto simp: constructor_result split: sum.splits)
  have "cfn_automaticFailoverEnabled (cfnProps ps sng sgs) =
          (case automaticFailoverEnabled ps of
             Some b \<Rightarrow> b
           | None \<Rightarrow> clusterModeEnabled ps = Some True \<or> multiAzEnabled ps = Some True)"
    for sng sgs
  proof (cases "automaticFailoverEnabled ps")
    case None
    then show ?thesis
      by (cases "clusterModeEnabled ps"; cases "multiAzEnabled ps") (auto simp: cfnProps_def)
  next
    case (Some b)
    show ?thesis
    proof (cases b)
      case True
      with Some show ?thesis by (simp add: cfnProps_def)
    next
      case False
      with Some validateNodeCount_ok_failover [OF v] show ?thesis
        by (simp add: cfnProps_def)
    qed
  qed
  then show ?thesis
    by (simp add: constructor_resourceProps_on_success [OF assms])
qed

theorem automaticFailoverEnabled_resolved_witness:
  "map_option cfn_automaticFailoverEnabled
     (resourceProps (snd (ReplicationGroup_constructor ''rg''
        ((onlyVpc (Vpc ''VPC''))\<lparr>automaticFailoverEnabled := Some False\<rparr>)))) = Some False \<and>
   map_option cfn_automaticFailoverEnabled
     (resourceProps (snd (ReplicationGroup_constructor ''rg''
        ((onlyVpc (Vpc ''VPC''))\<lparr>clusterModeEnabled := Some True\<rparr>)))) = Some True"
proof -
  let ?p1 = "(onlyVpc (Vpc ''VPC''))\<lparr>automaticFailoverEnabled := Some False\<rparr>"
  let ?p2 = "(onlyVpc (Vpc ''VPC''))\<lparr>clusterModeEnabled := Some True\<rparr>"
  obtain h1 where h1: "fst (ReplicationGroup_constructor ''rg'' ?p1) = Inr h1"
    by (simp add: constructor_result validateNodeCount_def onlyVpc_def)
  obtain h2 where h2: "fst (ReplicationGroup_constructor ''rg'' ?p2) = Inr h2"
    by (simp add: constructor_result validateNodeCount_def onlyVpc_def)
  from automaticFailoverEnabled_resolved [OF h1] automaticFailoverEnabled_resolved [OF h2]
  show ?thesis by (simp add: onlyVpc_def)
qed





text \<open>
  C6. With \<^verbatim>\<open>atRestEncrypted\<close> explicitly false and an encryption key supplied,
  construction raises an error, whatever the other properties are; the error is the one
  of the encryption check unless \<^verbatim>\<open>validateNodeCount\<close> has raised its own before.
\<close>

theorem encryptionKey_without_encryption_raises:
  assumes "atRestEncrypted ps = Some False" and "encryptionKey ps = Some k"
  shows "\<exists>e. fst (ReplicationGroup_constructor i ps) = Inl e \<and>
             (validateNodeCount ps = Inr () \<longrightarrow> e = EncryptionKeyWithoutEncryption)"
  using assms by (auto simp: constructor_result split: sum.splits)

theorem encryptionKey_without_encryption_raises_witness:
  "fst (ReplicationGroup_constructor ''ReplicationGroup''
          ((onlyVpc (Vpc ''VPC''))\<lparr>atRestEncrypted := Some False,
             encryptionKey := Some \<lparr>keyArn = GetAtt ''kms-key'' ''Arn''\<rparr>\<rparr>))
     = Inl EncryptionKeyWithoutEncryption"
proof -
  let ?ps = "(onlyVpc (Vpc ''VPC''))\<lparr>atRestEncrypted := Some False,
             encryptionKey := Some \<lparr>keyArn = GetAtt ''kms-key'' ''Arn''\<rparr>\<rparr>"
  have a: "atRestEncrypted ?ps = Some False" by (simp add: onlyVpc_def)
  have b: "encryptionKey ?ps = Some \<lparr>keyArn = GetAtt ''kms-key'' ''Arn''\<rparr>"
    by (simp add: onlyVpc_def)
  have v: "validateNodeCount ?ps = Inr ()" by (simp add: validateNodeCount_def onlyVpc_def)
  from encryptionKey_without_encryption_raises [OF a b, of "''ReplicationGroup''"] v
  show ?thesis by auto
qed

text \<open>
  C7. Properties that supply \<^verbatim>\<open>multiAzEnabled: true\<close> and no other topology field
  (and do not combine a key with disabled encryption) are accepted, and the resource
  has 1 node group, 1 replica per node group, automatic failover on and
  \<^verbatim>\<open>multiAzEnabled\<close> true.
\<close>

theorem multiAz_only_resolution:
  assumes "multiAzEnabled ps = Some True"
    and "numberOfNodeGroups ps = None" and "numberOfCacheClusters ps = None"
    and "replicasPerNodeGroup ps = None" and "clusterModeEnabled ps = None"
    and "automaticFailoverEnabled ps = None"
    and "\<not> (atRestEncrypted ps = Some False \<and> encryptionKey ps \<noteq> None)"
  shows "\<exists>h cp. fst (ReplicationGroup_constructor i ps) = Inr h \<and>
           resourceProps (snd (ReplicationGroup_constructor i ps)) = Some cp \<and>
           numNodeGroups cp = 1 \<and> cfn_replicasPerNodeGroup cp = 1 \<and>
           cfn_automaticFailoverEnabled cp = True \<and> cfn_multiAzEnabled cp = Some True"
proof -
  have v: "validateNodeCount ps = Inr ()"
    using assms by (simp add: validateNodeCount_def)
  with assms(7) obtain h where h: "fst (ReplicationGroup_constructor i ps) = Inr h"
    by (auto simp: constructor_result)
  show ?thesis
    using assms(1-6) h
    by (simp add: constructor_resourceProps_on_success [OF h] cfnProps_def)
qed

theorem multiAz_only_resolution_witness:
  "\<exists>h cp. fst (ReplicationGroup_constructor ''rg''
                 ((onlyVpc (Vpc ''VPC''))\<lparr>multiAzEnabled := Some True\<rparr>)) = Inr h \<and>
     resourceProps (snd (ReplicationGroup_constructor ''rg''
                 ((onlyVpc (Vpc ''VPC''))\<lparr>multiAzEnabled := Some True\<rparr>))) = Some cp \<and>
     numNodeGroups cp = 1 \<and> cfn_replicasPerNodeGroup cp = 1 \<and>
     cfn_automaticFailoverEnabled cp = True \<and> cfn_multiAzEnabled cp = Some True"
  by (rule multiAz_only_resolution) (simp_all add: onlyVpc_def)

text \<open>
  C8. \<^verbatim>\<open>fromReplicationGroupAttributes\<close> validates nothing and creates no resource:
  for every attribute set it returns a handle, with no child created, whose id and two
  endpoints are the supplied values, and whose connections have the supplied security
  groups and the supplied primary port as default port.
\<close>

theorem import_is_verbatim:
  "\<exists>h. fromReplicationGroupAttributes i attrs = (Inr h, []) \<and>
       replicationGroupId h = Str (attr_replicationGroupId attrs) \<and>
       primaryEndpoint h =
         Endpoint (Str (primaryEndpointAddress attrs)) (Num (primaryEndpointPort attrs)) \<and>
       readerEndpoint h =
         Endpoint (Str (readerEndpointAddress attrs)) (Num (readerEndpointPort attrs)) \<and>
       conn_securityGroups (connections h) = attr_securityGroups attrs \<and>
       defaultPort (connections h) = Some (Tcp (Num (primaryEndpointPort attrs)))"
  by (simp add: fromReplicationGroupAttributes_def)

theorem import_is_verbatim_witness:
  "\<exists>h. fromReplicationGroupAttributes ''rg''
          \<lparr>attr_securityGroups = None, attr_replicationGroupId = ''identifier'',
           primaryEndpointAddress = ''addr'', primaryEndpointPort = 0,
           readerEndpointAddress = ''readr'', readerEndpointPort = 4321\<rparr> = (Inr h, []) \<and>
       replicationGroupId h = Str ''identifier'' \<and>
       primaryEndpoint h = Endpoint (Str ''addr'') (Num 0) \<and>
       readerEndpoint h = Endpoint (Str ''readr'') (Num 4321) \<and>
       defaultPort (connections h) = Some (Tcp (Num 0))"
  using import_is_verbatim [of "''rg''"
      "\<lparr>attr_securityGroups = None, attr_replicationGroupId = ''identifier'',
           primaryEndpointAddress = ''addr'', primaryEndpointPort = 0,
           readerEndpointAddress = ''readr'', readerEndpointPort = 4321\<rparr>"]
  by auto

text \<open>
  C9, as stated: both default children, the subnet group and the security group,
  inherit the configured removal policy. It fails for the security group, which is
  created from a description and the vpc alone: with \<^verbatim>\<open>removalPolicy: RETAIN\<close> the
  children are the subnet group (RETAIN), the security group (no policy) and the
  resource (RETAIN).
\<close>

theorem security_group_gets_no_removal_policy:
  "map child_removalPolicy
     (snd (ReplicationGroup_constructor ''rg''
        ((onlyVpc (Vpc ''VPC''))\<lparr>removalPolicy := Some RETAIN\<rparr>)))
     = [Some RETAIN, None, Some RETAIN] \<and>
   map is_SecurityGroup
     (snd (ReplicationGroup_constructor ''rg''
        ((onlyVpc (Vpc ''VPC''))\<lparr>removalPolicy := Some RETAIN\<rparr>)))
     = [False, True, False]"
  by (simp add: ctor_defs onlyVpc_def validateNodeCount_def)

text \<open>
  C9, amended: the default subnet group, created when none is supplied, is given the
  configured removal policy (destroy when none is configured); the default security
  group, created when none is supplied, is given no removal policy.
\<close>

theorem removal_policy_of_children:
  "(\<forall>c \<in> set (snd (ReplicationGroup_constructor i ps)).
      (is_SubnetGroup c \<longrightarrow>
         child_removalPolicy c =
           Some (case removalPolicy ps of Some p \<Rightarrow> p | None \<Rightarrow> DESTROY)) \<and>
      (is_SecurityGroup c \<longrightarrow> child_removalPolicy c = None)) \<and>
   (subnetGroup ps = None \<longrightarrow>
      (\<exists>c \<in> set (snd (ReplicationGroup_constructor i ps)). is_SubnetGroup c)) \<and>
   (securityGroups ps = None \<longrightarrow>
      (\<exists>c \<in> set (snd (ReplicationGroup_constructor i ps)). is_SecurityGroup c))"
  using constructor_children_cases [of i ps]
  by (auto simp: constructor_children_on_error constructor_children_on_success
      split: option.splits)

theorem removal_policy_of_children_witness:
  "\<exists>c \<in> set (snd (ReplicationGroup_constructor ''rg''
        ((onlyVpc (Vpc ''VPC''))\<lparr>removalPolicy := Some SNAPSHOT\<rparr>))).
      is_SubnetGroup c \<and> child_removalPolicy c = Some SNAPSHOT"
  using removal_policy_of_children [of "''rg''"
      "(onlyVpc (Vpc ''VPC''))\<lparr>removalPolicy := Some SNAPSHOT\<rparr>"]
  by (auto simp: onlyVpc_def)

text \<open>
  C10. The default security group is created exactly when \<^verbatim>\<open>securityGroups\<close> is absent,
  and then it is a single one; the default subnet group is created exactly when
  \<^verbatim>\<open>subnetGroup\<close> is absent. When security groups are supplied, the resource's id list
  is the list of their ids: for a supplied empty array no security group is created
  and the id list is empty.
\<close>

theorem defaults_only_when_absent:
  "filter is_SecurityGroup (snd (ReplicationGroup_constructor i ps)) =
     (case securityGroups ps of
        None \<Rightarrow> [SecurityGroup ''SecurityGroup'' ''ElastiCache SG'' (vpc ps)]
      | Some gs \<Rightarrow> []) \<and>
   filter is_SubnetGroup (snd (ReplicationGroup_constructor i ps)) =
     (case subnetGroup ps of
        None \<Rightarrow> [SubnetGroup ''Subnets'' (''Subnets for '' @ i @ '' ElastiCache Replication Group'')
                  (vpc ps) (case vpcSubnets ps of Some s \<Rightarrow> s | None \<Rightarrow> \<lparr>subnetType = Some PRIVATE\<rparr>)
                  (case removalPolicy ps of Some p \<Rightarrow> p | None \<Rightarrow> DESTROY)]
      | Some g \<Rightarrow> []) \<and>
   (\<forall>gs h. securityGroups ps = Some gs \<and> fst (ReplicationGroup_constructor i ps) = Inr h \<longrightarrow>
      map_option securityGroupIds (resourceProps (snd (ReplicationGroup_constructor i ps))) =
        Some (map securityGroupId gs))"
  using constructor_children_cases [of i ps]
  by (auto simp: constructor_children_on_error constructor_children_on_success cfnProps_def
      split: option.splits)

theorem defaults_only_when_absent_witness:
  "filter is_SecurityGroup (snd (ReplicationGroup_constructor ''rg''
        ((onlyVpc (Vpc ''VPC''))\<lparr>securityGroups := Some []\<rparr>))) = [] \<and>
   map_option securityGroupIds (resourceProps (snd (ReplicationGroup_constructor ''rg''
        ((onlyVpc (Vpc ''VPC''))\<lparr>securityGroups := Some []\<rparr>)))) = Some []"
proof -
  let ?ps = "(onlyVpc (Vpc ''VPC''))\<lparr>securityGroups := Some []\<rparr>"
  obtain h where h: "fst (ReplicationGroup_constructor ''rg'' ?ps) = Inr h"
    by (simp add: constructor_result validateNodeCount_def onlyVpc_def)
  have s: "securityGroups ?ps = Some []" by (simp add: onlyVpc_def)
  from defaults_only_when_absent [of "''rg''" ?ps] s h show ?thesis
    by simp
qed

end
